theory Spec2Isabelle
  imports Main "HOL-Library.Word" "HOL-Library.Sublist"
begin

section \<open>Go values used by the Elasticsearch index stores\<close>

subsection \<open>Instants and durations\<close>

text \<open>
  A Go \<^verbatim>\<open>time.Time\<close> is an absolute instant together with a location. The instant is kept
  as the number of nanoseconds since the Unix epoch (an unbounded integer: the range of
  \<^verbatim>\<open>time.Time\<close> is some hundred thousand million years either way), the location as a fixed
  offset in seconds east of UTC. A \<^verbatim>\<open>time.Duration\<close> is an \<^verbatim>\<open>int64\<close> count of nanoseconds.
\<close>

record Time =
  unix_nanos :: int
  zone_offset :: int

type_synonym Duration = "64 word"

definition UTC :: "Time \<Rightarrow> Time" where
  "UTC t = t\<lparr>zone_offset := 0\<rparr>"

definition Add :: "Time \<Rightarrow> Duration \<Rightarrow> Time" where
  "Add t d = t\<lparr>unix_nanos := unix_nanos t + sint d\<rparr>"

subsection \<open>Formatting an instant with a layout\<close>

text \<open>
  \<^verbatim>\<open>Time.Format\<close> of the Go standard library, for layouts written with the numeric fields
  \<^verbatim>\<open>2006\<close>, \<^verbatim>\<open>01\<close>, \<^verbatim>\<open>02\<close>, \<^verbatim>\<open>15\<close>, \<^verbatim>\<open>04\<close>, \<^verbatim>\<open>05\<close> and separator characters, which is what the
  index date layouts are made of. Every other character of a layout is copied as it is;
  Go's textual fields (month and weekday names, AM/PM, zones, fractions of a second, the
  unpadded one-digit fields) are outside this model.
\<close>

datatype chunk =
    Lit char
  | stdLongYear
  | stdZeroMonth
  | stdZeroDay
  | stdHour
  | stdZeroMinute
  | stdZeroSecond

fun chunks :: "string \<Rightarrow> chunk list" where
  "chunks [] = []"
| "chunks (c # r) =
     (if take 4 (c # r) = ''2006'' then stdLongYear # chunks (drop 3 r)
      else if take 2 (c # r) = ''01'' then stdZeroMonth # chunks (drop 1 r)
      else if take 2 (c # r) = ''02'' then stdZeroDay # chunks (drop 1 r)
      else if take 2 (c # r) = ''15'' then stdHour # chunks (drop 1 r)
      else if take 2 (c # r) = ''04'' then stdZeroMinute # chunks (drop 1 r)
      else if take 2 (c # r) = ''05'' then stdZeroSecond # chunks (drop 1 r)
      else Lit c # chunks r)"

definition digit :: "nat \<Rightarrow> char" where
  "digit n = ''0123456789'' ! n"

fun decimal :: "nat \<Rightarrow> string" where
  "decimal n = (if n < 10 then [digit n] else decimal (n div 10) @ [digit (n mod 10)])"

declare decimal.simps [simp del]

text \<open>\<^verbatim>\<open>appendInt\<close>: the decimal form of \<open>x\<close>, zero-padded to \<open>width\<close>, after the sign.\<close>

definition appendInt :: "int \<Rightarrow> nat \<Rightarrow> string" where
  "appendInt x width =
     (let ds = decimal (nat \<bar>x\<bar>)
      in (if x < 0 then ''-'' else []) @ replicate (width - length ds) (CHR ''0'') @ ds)"

text \<open>The wall clock of an instant in its location: whole seconds since the epoch.\<close>

definition wall_seconds :: "Time \<Rightarrow> int" where
  "wall_seconds t = unix_nanos t div 1000000000 + zone_offset t"

text \<open>
  The proleptic Gregorian date of a day number (days since 1970-01-01), by eras of 400
  years that start on 1 March.
\<close>

definition civil :: "int \<Rightarrow> int \<times> int \<times> int" where
  "civil days =
     (let z = days + 719468;
          era = z div 146097;
          doe = z - era * 146097;
          yoe = (doe - doe div 1460 + doe div 36524 - doe div 146096) div 365;
          doy = doe - (365 * yoe + yoe div 4 - yoe div 100);
          mp = (5 * doy + 2) div 153;
          d = doy - (153 * mp + 2) div 5 + 1;
          m = (if mp < 10 then mp + 3 else mp - 9);
          y = yoe + era * 400
      in (if m \<le> 2 then y + 1 else y, m, d))"

definition appendChunk :: "Time \<Rightarrow> chunk \<Rightarrow> string" where
  "appendChunk t c =
     (let secs = wall_seconds t;
          (year, month, day) = civil (secs div 86400);
          sod = secs mod 86400
      in case c of
           Lit ch \<Rightarrow> [ch]
         | stdLongYear \<Rightarrow> appendInt year 4
         | stdZeroMonth \<Rightarrow> appendInt month 2
         | stdZeroDay \<Rightarrow> appendInt day 2
         | stdHour \<Rightarrow> appendInt (sod div 3600) 2
         | stdZeroMinute \<Rightarrow> appendInt (sod mod 3600 div 60) 2
         | stdZeroSecond \<Rightarrow> appendInt (sod mod 60) 2)"

definition Format :: "Time \<Rightarrow> string \<Rightarrow> string" where
  "Format t layout = concat (map (appendChunk t) (chunks layout))"

subsection \<open>Replacing substrings\<close>

text \<open>
  \<^verbatim>\<open>strings.Replace(s, old, new, n)\<close> of the Go standard library for a non-empty \<open>old\<close>:
  the first \<open>n\<close> non-overlapping occurrences of \<open>old\<close>, from the left, are replaced by
  \<open>new\<close>; a negative \<open>n\<close> puts no limit on their number.
\<close>

function Replace :: "string \<Rightarrow> string \<Rightarrow> string \<Rightarrow> int \<Rightarrow> string" where
  "Replace s old new n =
     (if n = 0 \<or> old = [] \<or> s = [] then s
      else if prefix old s then new @ Replace (drop (length old) s) old new (n - 1)
      else hd s # Replace (tl s) old new n)"
  by pat_completeness auto
termination
  by (relation "measure (\<lambda>(s, old, new, n). length s)") auto

declare Replace.simps [simp del]

section \<open>Index names: \<^verbatim>\<open>internal/storage/elasticsearch/config/utils.go\<close>\<close>

definition IndexWithDate :: "string \<Rightarrow> string \<Rightarrow> Time \<Rightarrow> string" where
  "IndexWithDate indexPrefix indexDateLayout date =
     indexPrefix @ Format (UTC date) indexDateLayout"

definition GetDataStreamLegacyWildcard :: "string \<Rightarrow> string" where
  "GetDataStreamLegacyWildcard dataStreamName =
     Replace dataStreamName ''.'' ''-'' 1 @ ''-*''"

section \<open>The Elasticsearch client\<close>

text \<open>
  The stores reach Elasticsearch through \<^verbatim>\<open>es.Client\<close>. An error is its message; \<open>None\<close>
  is Go's \<^verbatim>\<open>nil\<close> error. \<^verbatim>\<open>IndexExists(name).Do\<close> and \<^verbatim>\<open>CreateIndex(name).Do\<close> answer as the
  cluster does; \<^verbatim>\<open>GetVersion\<close> is the major version of the cluster.
  \<^verbatim>\<open>Index().Index(i).Type(t).Id(d).BodyJson(b).Add(op)\<close> hands one document to the bulk
  processor and returns nothing: \<open>req_id\<close> is \<open>None\<close> when \<^verbatim>\<open>Id\<close> is not called.
  Every store operation returns, next to its result, the requests it made, in order.
\<close>

type_synonym error = string

record Client =
  IndexExists_Do :: "string \<Rightarrow> error + bool"
  CreateIndex_Do :: "string \<Rightarrow> error option"
  GetVersion :: nat

record 'b IndexRequest =
  req_index :: string
  req_type :: string
  req_id :: "string option"
  req_body :: 'b
  req_opType :: string

datatype 'b call =
    IndexExists string
  | CreateIndex string
  | IndexAdd "'b IndexRequest"

text \<open>
  \<^verbatim>\<open>config.IndexPrefix\<close> is declared outside the verified sources; a prefix is represented by its
  \<^verbatim>\<open>Apply\<close> method, which maps a base name to the prefixed name.
\<close>

type_synonym IndexPrefix = "string \<Rightarrow> string"

text \<open>
  Modelled from the spec: the constant \<^verbatim>\<open>config.IndexPrefixSeparator\<close> is declared outside
  the verified sources; the aliases are named \<^verbatim>\<open><base>-write\<close> and \<^verbatim>\<open><base>-read\<close>, and dated
  indices \<^verbatim>\<open>jaeger-span-2025-01-01\<close>.
\<close>

definition IndexPrefixSeparator :: string where
  "IndexPrefixSeparator = ''-''"

section \<open>The dependency store\<close>

text \<open>
  The store of package \<^verbatim>\<open>depstore\<close>, with its write path. A store has two modes: dated
  indices, and read/write aliases (\<open>useReadWriteAliases\<close>). Its \<^verbatim>\<open>Params\<close> and
  \<^verbatim>\<open>getWriteIndex\<close> share their names with those of the sampling store and are written
  \<open>depstore_Params\<close> and \<open>dep_getWriteIndex\<close>.
\<close>

definition dependencyType :: string where
  "dependencyType = ''dependencies''"

definition dependencyIndexBaseName :: string where
  "dependencyIndexBaseName = ''jaeger-dependencies''"

record DependencyStore =
  dependencyIndexPrefix :: string
  indexDateLayout :: string
  indexRolloverFrequency :: Duration
  maxDocCount :: int
  useReadWriteAliases :: bool

record depstore_Params =
  IndexPrefix :: IndexPrefix
  IndexDateLayout :: string
  IndexRolloverFrequency :: Duration
  MaxDocCount :: int
  UseReadWriteAliases :: bool

definition NewDependencyStore :: "depstore_Params \<Rightarrow> DependencyStore" where
  "NewDependencyStore p =
     \<lparr>dependencyIndexPrefix = IndexPrefix p dependencyIndexBaseName @ IndexPrefixSeparator,
      indexDateLayout = IndexDateLayout p,
      indexRolloverFrequency = IndexRolloverFrequency p,
      maxDocCount = MaxDocCount p,
      useReadWriteAliases = UseReadWriteAliases p\<rparr>"

definition writeDependenciesToIndex ::
  "DependencyStore \<Rightarrow> string \<Rightarrow> Time \<Rightarrow> 'd list \<Rightarrow> (Time \<times> 'd list) call list" where
  "writeDependenciesToIndex s indexName ts dependencies =
     [IndexAdd \<lparr>req_index = indexName, req_type = dependencyType, req_id = None,
                req_body = (ts, dependencies), req_opType = []\<rparr>]"

definition createIndex :: "DependencyStore \<Rightarrow> Client \<Rightarrow> string \<Rightarrow> error option \<times> 'b call list" where
  "createIndex s c indexName =
     (if useReadWriteAliases s then (None, [])
      else case IndexExists_Do c indexName of
             Inl err \<Rightarrow> (Some err, [IndexExists indexName])
           | Inr exists \<Rightarrow>
               if \<not> exists
               then (CreateIndex_Do c indexName, [IndexExists indexName, CreateIndex indexName])
               else (None, [IndexExists indexName]))"

definition dep_getWriteIndex :: "DependencyStore \<Rightarrow> Time \<Rightarrow> string" where
  "dep_getWriteIndex s ts =
     (if useReadWriteAliases s then dependencyIndexPrefix s @ ''write''
      else IndexWithDate (dependencyIndexPrefix s) (indexDateLayout s) ts)"

definition WriteDependencies ::
  "DependencyStore \<Rightarrow> Client \<Rightarrow> Time \<Rightarrow> 'd list \<Rightarrow> error option \<times> (Time \<times> 'd list) call list" where
  "WriteDependencies s c ts dependencies =
     (let indexName = dep_getWriteIndex s ts;
          (err, calls) = createIndex s c indexName
      in if err \<noteq> None then (err, calls)
         else (None, calls @ writeDependenciesToIndex s indexName ts dependencies))"

section \<open>The sampling store\<close>

text \<open>
  The store of package \<^verbatim>\<open>samplingstore\<close> in its revision with data streams. A store has
  two modes: dated indices, and a data stream (\<open>useDataStream\<close>). The earlier revision of
  the file has no data-stream mode; its functions are those below with \<open>useDataStream\<close>
  false, except that its inserts always pass the empty operation type.
\<close>

definition samplingIndexBaseName :: string where
  "samplingIndexBaseName = ''jaeger-sampling''"

definition throughputType :: string where
  "throughputType = ''throughput-sampling''"

definition probabilitiesType :: string where
  "probabilitiesType = ''probabilities-sampling''"

record SamplingStore =
  samplingIndexPrefix :: string
  indexDateLayout :: string
  maxDocCount :: int
  indexRolloverFrequency :: Duration
  lookback :: Duration
  useDataStream :: bool

record Params =
  IndexPrefix :: IndexPrefix
  IndexDateLayout :: string
  IndexRolloverFrequency :: Duration
  Lookback :: Duration
  MaxDocCount :: int
  UseDataStream :: bool

definition NewSamplingStore :: "Params \<Rightarrow> SamplingStore" where
  "NewSamplingStore p =
     (let samplingIndexBase = (if UseDataStream p then ''jaeger.sampling'' else samplingIndexBaseName);
          prefix = IndexPrefix p samplingIndexBase;
          prefix = (if \<not> UseDataStream p then prefix @ IndexPrefixSeparator else prefix)
      in \<lparr>samplingIndexPrefix = prefix,
          indexDateLayout = IndexDateLayout p,
          maxDocCount = MaxDocCount p,
          indexRolloverFrequency = IndexRolloverFrequency p,
          lookback = Lookback p,
          useDataStream = UseDataStream p\<rparr>)"

definition getWriteIndex :: "SamplingStore \<Rightarrow> Time \<Rightarrow> string" where
  "getWriteIndex s ts =
     (if useDataStream s then samplingIndexPrefix s
      else IndexWithDate (samplingIndexPrefix s) (indexDateLayout s) ts)"

text \<open>
  \<^verbatim>\<open>InsertThroughput\<close>: \<open>ts\<close> is the reading of \<^verbatim>\<open>time.Now()\<close>; \<open>FromThroughputs\<close> is the
  conversion of \<^verbatim>\<open>dbmodel\<close>, declared outside the verified sources.
\<close>

definition InsertThroughput ::
  "('m list \<Rightarrow> 't list) \<Rightarrow> SamplingStore \<Rightarrow> Client \<Rightarrow> Time \<Rightarrow> 'm list
     \<Rightarrow> error option \<times> (Time \<times> 't) call list" where
  "InsertThroughput FromThroughputs s c ts throughput =
     (let indexName = getWriteIndex s ts
      in (None,
          map (\<lambda>eachThroughput.
                 IndexAdd \<lparr>req_index = indexName, req_type = throughputType, req_id = None,
                           req_body = (ts, eachThroughput),
                           req_opType = (if useDataStream s \<or> GetVersion c \<ge> 8
                                         then ''create'' else [])\<rparr>)
              (FromThroughputs throughput)))"

definition writeProbabilitiesAndQPS ::
  "SamplingStore \<Rightarrow> Client \<Rightarrow> string \<Rightarrow> Time \<Rightarrow> 'p \<Rightarrow> (Time \<times> 'p) call list" where
  "writeProbabilitiesAndQPS s c indexName ts pandqps =
     [IndexAdd \<lparr>req_index = indexName, req_type = probabilitiesType, req_id = None,
                req_body = (ts, pandqps),
                req_opType = (if useDataStream s \<or> GetVersion c \<ge> 8 then ''create'' else [])\<rparr>]"

definition InsertProbabilitiesAndQPS ::
  "SamplingStore \<Rightarrow> Client \<Rightarrow> Time \<Rightarrow> string \<Rightarrow> 'pr \<Rightarrow> 'q
     \<Rightarrow> error option \<times> (Time \<times> 'pr \<times> 'q) call list" where
  "InsertProbabilitiesAndQPS s c ts hostname probabilities qps =
     (let writeIndexName = getWriteIndex s ts;
          val = (probabilities, qps)
      in (None, writeProbabilitiesAndQPS s c writeIndexName ts val))"

text \<open>
  The scan of \<^verbatim>\<open>getLatestIndices\<close>: a \<^verbatim>\<open>for\<close> without a condition, left only by a
  \<^verbatim>\<open>return\<close>. \<open>None\<close> is a scan that never returns.
\<close>

partial_function (option) getLatestIndices_loop ::
  "SamplingStore \<Rightarrow> Client \<Rightarrow> string \<Rightarrow> 'b call list \<Rightarrow> Time
     \<Rightarrow> ((error + string list) \<times> 'b call list) option" where
  "getLatestIndices_loop s clientFn earliestIndex calls now =
     (let currentIndex = IndexWithDate (samplingIndexPrefix s) (indexDateLayout s) now;
          calls = calls @ [IndexExists currentIndex]
      in case IndexExists_Do clientFn currentIndex of
           Inl err \<Rightarrow> Some (Inl (''failed to check index existence: '' @ err), calls)
         | Inr exists \<Rightarrow>
             if exists then Some (Inr [currentIndex], calls)
             else if currentIndex = earliestIndex
             then Some (Inl ''falied to find latest index'', calls)
             else getLatestIndices_loop s clientFn earliestIndex calls
                    (Add now (indexRolloverFrequency s)))"

declare getLatestIndices_loop.simps [code]

text \<open>\<open>timeNow\<close> is the reading of \<^verbatim>\<open>time.Now()\<close>.\<close>

definition getLatestIndices ::
  "SamplingStore \<Rightarrow> Client \<Rightarrow> Time \<Rightarrow> ((error + string list) \<times> 'b call list) option" where
  "getLatestIndices s clientFn timeNow =
     (if useDataStream s
      then Some (Inr ([samplingIndexPrefix s]
                      @ [GetDataStreamLegacyWildcard (samplingIndexPrefix s)]), [])
      else let now = UTC timeNow;
               earliest = Add now (- lookback s);
               earliestIndex = IndexWithDate (samplingIndexPrefix s) (indexDateLayout s) earliest
           in getLatestIndices_loop s clientFn earliestIndex [] now)"

text \<open>The loop of \<^verbatim>\<open>getReadIndices\<close>; \<open>None\<close> is a loop that never ends.\<close>

partial_function (option) getReadIndices_loop ::
  "SamplingStore \<Rightarrow> string \<Rightarrow> string list \<Rightarrow> Time \<Rightarrow> string \<Rightarrow> string list option" where
  "getReadIndices_loop s firstIndex indices endTime currentIndex =
     (if currentIndex \<noteq> firstIndex
      then let indices = indices @ [currentIndex];
               endTime = Add endTime (indexRolloverFrequency s);
               currentIndex = IndexWithDate (samplingIndexPrefix s) (indexDateLayout s) endTime
           in getReadIndices_loop s firstIndex indices endTime currentIndex
      else Some indices)"

declare getReadIndices_loop.simps [code]

definition getReadIndices :: "SamplingStore \<Rightarrow> Time \<Rightarrow> Time \<Rightarrow> string list option" where
  "getReadIndices s startTime endTime =
     (if useDataStream s
      then Some ([samplingIndexPrefix s]
                 @ [GetDataStreamLegacyWildcard (samplingIndexPrefix s)])
      else let firstIndex = IndexWithDate (samplingIndexPrefix s) (indexDateLayout s) startTime;
               currentIndex = IndexWithDate (samplingIndexPrefix s) (indexDateLayout s) endTime
           in case getReadIndices_loop s firstIndex [] endTime currentIndex of
                None \<Rightarrow> None
              | Some indices \<Rightarrow> Some (indices @ [firstIndex]))"

section \<open>The service/operation writer\<close>

text \<open>
  Modelled from the spec: \<^verbatim>\<open>ServiceOperationStorage.Write\<close>, the writer of service/operation
  records, is outside the verified sources (only its tests are among them). In the dated-index and
  alias modes the record is written with an identifier derived from its hash, so that a
  repeated write replaces the same document; in data-stream mode the write carries no
  identifier and is a create; a cache held by the process suppresses repeated writes.
  \<open>hashCode\<close> and the document type are taken as parameters.
\<close>

definition writeService ::
  "bool \<Rightarrow> string \<Rightarrow> ('sv \<Rightarrow> string) \<Rightarrow> string list \<Rightarrow> string \<Rightarrow> 'sv
     \<Rightarrow> 'sv call list \<times> string list" where
  "writeService dataStream serviceType hashCode serviceCache indexName service =
     (let cacheKey = hashCode service
      in if cacheKey \<in> set serviceCache then ([], serviceCache)
         else ([IndexAdd \<lparr>req_index = indexName, req_type = serviceType,
                          req_id = (if dataStream then None else Some cacheKey),
                          req_body = service,
                          req_opType = (if dataStream then ''create'' else [])\<rparr>],
               cacheKey # serviceCache))"

section \<open>Notions used to state the properties\<close>

text \<open>The cursor of the backward walks after \<open>k\<close> steps of \<open>d\<close> from \<open>t\<close>.\<close>

definition cursor :: "Duration \<Rightarrow> Time \<Rightarrow> nat \<Rightarrow> Time" where
  "cursor d t k = ((\<lambda>u. Add u d) ^^ k) t"

text \<open>The dated index name of the sampling store \<open>s\<close> at an instant.\<close>

abbreviation indexName :: "SamplingStore \<Rightarrow> Time \<Rightarrow> string" where
  "indexName s t \<equiv> IndexWithDate (samplingIndexPrefix s) (SamplingStore.indexDateLayout s) t"


subsection \<open>Example configurations\<close>

text \<open>\<^verbatim>\<open>time.Unix(sec, 0).UTC()\<close> and \<^verbatim>\<open>time.Hour\<close>.\<close>

definition UnixUTC :: "int \<Rightarrow> Time" where
  "UnixUTC sec = \<lparr>unix_nanos = sec * 1000000000, zone_offset = 0\<rparr>"

definition Hour :: Duration where
  "Hour = 3600000000000"

text \<open>Midnight (UTC) of 1 January 2025 in Unix seconds.\<close>

definition jan1_2025 :: int where
  "jan1_2025 = 1735689600"

text \<open>
  Sampling store parameters with no index prefix and the daily layout, for a rollover
  frequency, a lookback and a mode.
\<close>

definition example_Params :: "Duration \<Rightarrow> Duration \<Rightarrow> bool \<Rightarrow> Params" where
  "example_Params frequency lb dataStream =
     \<lparr>IndexPrefix = (\<lambda>base. base), IndexDateLayout = ''2006-01-02'',
      IndexRolloverFrequency = frequency, Lookback = lb, MaxDocCount = 10000,
      UseDataStream = dataStream\<rparr>"

text \<open>Dependency store parameters with no index prefix and the daily layout.\<close>

definition example_depstore_Params :: "bool \<Rightarrow> depstore_Params" where
  "example_depstore_Params aliases =
     \<lparr>depstore_Params.IndexPrefix = (\<lambda>base. base),
      depstore_Params.IndexDateLayout = ''2006-01-02'',
      depstore_Params.IndexRolloverFrequency = 24 * Hour,
      depstore_Params.MaxDocCount = 10000,
      UseReadWriteAliases = aliases\<rparr>"

text \<open>
  A cluster of the given major version that holds exactly the indices \<open>present\<close> and
  answers a creation with \<open>created\<close>.
\<close>

definition cluster :: "nat \<Rightarrow> string list \<Rightarrow> error option \<Rightarrow> Client" where
  "cluster version present created =
     \<lparr>IndexExists_Do = (\<lambda>name. Inr (name \<in> set present)),
      CreateIndex_Do = (\<lambda>name. created),
      GetVersion = version\<rparr>"

section \<open>Index names\<close>

lemma Replace_zero: "Replace s old new 0 = s"
  by (subst Replace.simps) simp

lemma Replace_absent: "c \<notin> set s \<Longrightarrow> Replace s [c] new n = s"
proof (induction s)
  case Nil
  show ?case by (subst Replace.simps) simp
next
  case (Cons a s)
  then show ?case by (subst Replace.simps) simp
qed

lemma Replace_first: "c \<notin> set pre \<Longrightarrow> Replace (pre @ c # post) [c] new 1 = pre @ new @ post"
proof (induction pre)
  case Nil
  show ?case by (subst Replace.simps) (simp add: Replace_zero)
next
  case (Cons a pre)
  then show ?case by (subst Replace.simps) simp
qed

lemma legacy_wildcard_sampling:
  "GetDataStreamLegacyWildcard ''jaeger.sampling'' = ''jaeger-sampling-*''"
  using Replace_first [of "CHR ''.''" "''jaeger''" "''sampling''" "''-''"]
  by (simp add: GetDataStreamLegacyWildcard_def)

text \<open>
  C7. For every data-stream name, the legacy wildcard replaces the first \<^verbatim>\<open>.\<close> by \<^verbatim>\<open>-\<close> and
  appends \<^verbatim>\<open>-*\<close>: a name \<open>pre.post\<close> whose part \<open>pre\<close> has no dot gives \<open>pre-post-*\<close>,
  so \<^verbatim>\<open>jaeger.span\<close> gives \<^verbatim>\<open>jaeger-span-*\<close> and \<^verbatim>\<open>jaeger.service\<close> gives
  \<^verbatim>\<open>jaeger-service-*\<close>; a name without a dot gives the name followed by \<^verbatim>\<open>-*\<close>. The
  function is total, so it never fails.
\<close>

theorem legacy_wildcard_first_dot:
  "(CHR ''.'' \<notin> set pre \<longrightarrow>
      GetDataStreamLegacyWildcard (pre @ ''.'' @ post) = pre @ ''-'' @ post @ ''-*'')
   \<and> (CHR ''.'' \<notin> set name \<longrightarrow> GetDataStreamLegacyWildcard name = name @ ''-*'')
   \<and> GetDataStreamLegacyWildcard ''jaeger.span'' = ''jaeger-span-*''
   \<and> GetDataStreamLegacyWildcard ''jaeger.service'' = ''jaeger-service-*''"
proof -
  have first: "CHR ''.'' \<notin> set p \<Longrightarrow>
      GetDataStreamLegacyWildcard (p @ ''.'' @ q) = p @ ''-'' @ q @ ''-*''" for p q
    using Replace_first [of "CHR ''.''" p q "''-''"]
    by (simp add: GetDataStreamLegacyWildcard_def)
  have none: "CHR ''.'' \<notin> set name \<Longrightarrow> GetDataStreamLegacyWildcard name = name @ ''-*''"
    by (simp add: GetDataStreamLegacyWildcard_def Replace_absent)
  have span: "GetDataStreamLegacyWildcard ''jaeger.span'' = ''jaeger-span-*''"
    using first [of "''jaeger''" "''span''"] by simp
  have service: "GetDataStreamLegacyWildcard ''jaeger.service'' = ''jaeger-service-*''"
    using first [of "''jaeger''" "''service''"] by simp
  from first none span service show ?thesis by blast
qed

theorem legacy_wildcard_first_dot_witness:
  "CHR ''.'' \<notin> set ''a'' \<and> GetDataStreamLegacyWildcard ''a.b.c'' = ''a-b.c-*''
   \<and> CHR ''.'' \<notin> set ''jaeger'' \<and> GetDataStreamLegacyWildcard ''jaeger'' = ''jaeger-*''"
  using legacy_wildcard_first_dot [of "''a''" "''b.c''" "''jaeger''"] by simp

section \<open>Writes of the sampling store\<close>

text \<open>
  C10. \<^verbatim>\<open>InsertThroughput\<close> and \<^verbatim>\<open>InsertProbabilitiesAndQPS\<close> return a nil error for every
  store, every client, every clock reading and every input: the documents are handed to
  the bulk processor, whose answer never reaches the caller.
\<close>

theorem insert_operations_return_nil:
  "fst (InsertThroughput FromThroughputs s c ts throughput) = None
   \<and> fst (InsertProbabilitiesAndQPS s c ts hostname probabilities qps) = None"
  by (simp add: InsertThroughput_def InsertProbabilitiesAndQPS_def Let_def)

text \<open>
  C6. Every write issued in data-stream mode carries no document identifier and has the
  operation type \<^verbatim>\<open>create\<close>: the throughput and probability documents of the sampling
  store, and the service/operation record of the service writer.
\<close>

theorem data_stream_writes_create_without_id:
  assumes "useDataStream s"
  shows "(\<forall>r. IndexAdd r \<in> set (snd (InsertThroughput FromThroughputs s c ts throughput)) \<longrightarrow>
            req_id r = None \<and> req_opType r = ''create'')
       \<and> (\<forall>r. IndexAdd r
              \<in> set (snd (InsertProbabilitiesAndQPS s c ts hostname probabilities qps)) \<longrightarrow>
            req_id r = None \<and> req_opType r = ''create'')
       \<and> (\<forall>r. IndexAdd r
              \<in> set (fst (writeService True serviceType hashCode serviceCache name service)) \<longrightarrow>
            req_id r = None \<and> req_opType r = ''create'')"
  using assms
  by (auto simp: InsertThroughput_def InsertProbabilitiesAndQPS_def writeProbabilitiesAndQPS_def
      writeService_def Let_def)

theorem data_stream_writes_create_without_id_witness:
  "useDataStream (NewSamplingStore (example_Params (- (24 * Hour)) (72 * Hour) True))
   \<and> snd (InsertThroughput (\<lambda>x. x)
            (NewSamplingStore (example_Params (- (24 * Hour)) (72 * Hour) True))
            (cluster 7 [] None) (UnixUTC jan1_2025) [5::nat])
       = [IndexAdd \<lparr>req_index = ''jaeger.sampling'', req_type = ''throughput-sampling'',
                    req_id = None, req_body = (UnixUTC jan1_2025, 5), req_opType = ''create''\<rparr>]
   \<and> req_id (\<lparr>req_index = ''jaeger.sampling'', req_type = ''throughput-sampling'',
              req_id = None, req_body = (UnixUTC jan1_2025, 5::nat),
              req_opType = ''create''\<rparr>) = None"
proof -
  let ?s = "NewSamplingStore (example_Params (- (24 * Hour)) (72 * Hour) True)"
  let ?r = "\<lparr>req_index = ''jaeger.sampling'', req_type = ''throughput-sampling'',
             req_id = None, req_body = (UnixUTC jan1_2025, 5::nat), req_opType = ''create''\<rparr>"
  have h: "useDataStream ?s"
    by (simp add: NewSamplingStore_def example_Params_def)
  have e: "snd (InsertThroughput (\<lambda>x. x) ?s (cluster 7 [] None) (UnixUTC jan1_2025) [5::nat])
       = [IndexAdd ?r]"
    by (simp add: InsertThroughput_def getWriteIndex_def NewSamplingStore_def example_Params_def
        throughputType_def)
  have m: "IndexAdd ?r
      \<in> set (snd (InsertThroughput (\<lambda>x. x) ?s (cluster 7 [] None) (UnixUTC jan1_2025) [5::nat]))"
    by (simp only: e list.set insertI1)
  note t = data_stream_writes_create_without_id [OF h, THEN conjunct1, rule_format,
      of ?r "\<lambda>x. x" "cluster 7 [] None" "UnixUTC jan1_2025" "[5::nat]", OF m]
  from h e t show ?thesis by blast
qed

section \<open>Read plans in data-stream mode\<close>

text \<open>
  C1, as the code has it. In data-stream mode the read plan of the sampling store is
  always the data-stream name followed by its legacy wildcard, for every time range, and
  so is the result of the latest-index lookup, which asks the cluster nothing. No
  migration gate is read: the plan never shrinks to the data-stream name alone.
\<close>

theorem data_stream_read_plan_has_legacy_wildcard:
  assumes "useDataStream s"
  shows "getReadIndices s startTime endTime
           = Some [samplingIndexPrefix s, GetDataStreamLegacyWildcard (samplingIndexPrefix s)]
       \<and> getLatestIndices s c timeNow
           = Some (Inr [samplingIndexPrefix s,
                        GetDataStreamLegacyWildcard (samplingIndexPrefix s)], [])"
  using assms by (simp add: getReadIndices_def getLatestIndices_def)

theorem data_stream_read_plan_has_legacy_wildcard_witness:
  "useDataStream (NewSamplingStore (example_Params (- (24 * Hour)) (72 * Hour) True))
   \<and> getReadIndices (NewSamplingStore (example_Params (- (24 * Hour)) (72 * Hour) True))
        (UnixUTC jan1_2025) (UnixUTC (jan1_2025 + 86400))
       = Some [''jaeger.sampling'', ''jaeger-sampling-*'']"
proof -
  let ?s = "NewSamplingStore (example_Params (- (24 * Hour)) (72 * Hour) True)"
  have h: "useDataStream ?s"
    by (simp add: NewSamplingStore_def example_Params_def)
  have p: "samplingIndexPrefix ?s = ''jaeger.sampling''"
    by (simp add: NewSamplingStore_def example_Params_def)
  show ?thesis
    using h data_stream_read_plan_has_legacy_wildcard [OF h, THEN conjunct1,
        of "UnixUTC jan1_2025" "UnixUTC (jan1_2025 + 86400)"]
    by (simp add: p legacy_wildcard_sampling)
qed

text \<open>
  The claim C1 as written fails: with the gate disabled it promises the plan
  \<^verbatim>\<open>[jaeger.sampling]\<close>, and the store in data-stream mode never returns that plan.
\<close>

theorem data_stream_read_plan_gate_counterexample:
  "getReadIndices (NewSamplingStore (example_Params (- (24 * Hour)) (72 * Hour) True))
        (UnixUTC jan1_2025) (UnixUTC (jan1_2025 + 86400))
     \<noteq> Some [''jaeger.sampling'']"
  by (simp add: getReadIndices_def NewSamplingStore_def example_Params_def)

section \<open>Writes of the dependency store\<close>

lemma date_name_jan1:
  "IndexWithDate p ''2006-01-02'' (UnixUTC jan1_2025) = p @ ''2025-01-01''"
proof -
  have "Format (UTC (UnixUTC jan1_2025)) ''2006-01-02'' = ''2025-01-01''"
    by code_simp
  then show ?thesis by (simp add: IndexWithDate_def)
qed

text \<open>
  C4, as the code has it. Before a dated-index write the dependency store asks whether the
  index exists. If it is reported present, nothing is created and the step succeeds. If it
  is reported absent, its creation is requested and the answer of that request is the
  result: an error of the creation, whatever its cause, is returned to the caller of
  \<^verbatim>\<open>WriteDependencies\<close>, and the document is not written. An error of the existence check
  is returned likewise.
\<close>

theorem createIndex_returns_creation_outcome:
  assumes "\<not> useReadWriteAliases s"
  shows "(IndexExists_Do c name = Inr True \<longrightarrow> createIndex s c name = (None, [IndexExists name]))
       \<and> (IndexExists_Do c name = Inr False \<longrightarrow>
            createIndex s c name = (CreateIndex_Do c name, [IndexExists name, CreateIndex name]))
       \<and> (IndexExists_Do c name = Inl err \<longrightarrow>
            createIndex s c name = (Some err, [IndexExists name]))
       \<and> (IndexExists_Do c (dep_getWriteIndex s ts) = Inr False
            \<and> CreateIndex_Do c (dep_getWriteIndex s ts) = Some err \<longrightarrow>
            WriteDependencies s c ts dependencies
              = (Some err, [IndexExists (dep_getWriteIndex s ts),
                            CreateIndex (dep_getWriteIndex s ts)]))"
  using assms by (simp add: createIndex_def WriteDependencies_def Let_def)

theorem createIndex_returns_creation_outcome_witness:
  "\<not> useReadWriteAliases (NewDependencyStore (example_depstore_Params False))
   \<and> IndexExists_Do (cluster 7 [''jaeger-dependencies-2025-01-01''] None)
        ''jaeger-dependencies-2025-01-01'' = Inr True
   \<and> createIndex (NewDependencyStore (example_depstore_Params False))
        (cluster 7 [''jaeger-dependencies-2025-01-01''] None) ''jaeger-dependencies-2025-01-01''
       = (None, [IndexExists ''jaeger-dependencies-2025-01-01''])"
proof -
  let ?s = "NewDependencyStore (example_depstore_Params False)"
  let ?c = "cluster 7 [''jaeger-dependencies-2025-01-01''] None"
  have h: "\<not> useReadWriteAliases ?s"
    by (simp add: NewDependencyStore_def example_depstore_Params_def)
  have e: "IndexExists_Do ?c ''jaeger-dependencies-2025-01-01'' = Inr True"
    by (simp add: cluster_def)
  note t = createIndex_returns_creation_outcome [OF h, THEN conjunct1, rule_format,
      of ?c "''jaeger-dependencies-2025-01-01''", OF e]
  from h e t show ?thesis by blast
qed

text \<open>
  The claim C4 as written fails: the index is absent when the store asks, another writer
  creates it before the store's own creation arrives, the cluster answers that the index
  already exists, and \<^verbatim>\<open>WriteDependencies\<close> returns that error without writing.
\<close>

theorem creation_race_error_surfaces_counterexample:
  "WriteDependencies (NewDependencyStore (example_depstore_Params False))
      (cluster 7 [] (Some ''resource_already_exists_exception'')) (UnixUTC jan1_2025) [1::nat]
     = (Some ''resource_already_exists_exception'',
        [IndexExists ''jaeger-dependencies-2025-01-01'',
         CreateIndex ''jaeger-dependencies-2025-01-01''])"
  by (simp add: WriteDependencies_def createIndex_def dep_getWriteIndex_def NewDependencyStore_def
      Let_def example_depstore_Params_def cluster_def date_name_jan1 dependencyIndexBaseName_def
      IndexPrefixSeparator_def)

section \<open>Write targets\<close>

text \<open>
  C8, as the code has it. The write target follows from the mode of the store. Dependency
  store, dated-index mode: the target is the dated name of the instant, and the write is
  preceded by an existence check and, if the index is absent, by its creation; an error of
  either ends the operation before the write. Dependency store, alias mode: the target is
  the prefixed base name followed by \<^verbatim>\<open>-write\<close>, and the write is the only request.
  Sampling store, data-stream mode: the target is the prefixed data-stream name, the same
  at every instant. Sampling store, dated-index mode: the target is the dated name of the
  instant. In both modes of the sampling store every request of an insert is a document
  write to the target: there is no existence check and no creation.
\<close>

theorem write_target_by_mode:
  "(\<not> useReadWriteAliases d \<longrightarrow>
      dep_getWriteIndex d ts
        = IndexWithDate (dependencyIndexPrefix d) (DependencyStore.indexDateLayout d) ts
      \<and> WriteDependencies d c ts dependencies
        = (let target = dep_getWriteIndex d ts;
               write = writeDependenciesToIndex d target ts dependencies
           in case IndexExists_Do c target of
                Inl err \<Rightarrow> (Some err, [IndexExists target])
              | Inr present \<Rightarrow>
                  if present then (None, IndexExists target # write)
                  else case CreateIndex_Do c target of
                         Some err \<Rightarrow> (Some err, [IndexExists target, CreateIndex target])
                       | None \<Rightarrow> (None, IndexExists target # CreateIndex target # write)))
   \<and> (useReadWriteAliases d \<longrightarrow>
        dep_getWriteIndex d ts = dependencyIndexPrefix d @ ''write''
      \<and> WriteDependencies d c ts dependencies
        = (None, writeDependenciesToIndex d (dep_getWriteIndex d ts) ts dependencies))
   \<and> dependencyIndexPrefix (NewDependencyStore dp)
        = depstore_Params.IndexPrefix dp ''jaeger-dependencies'' @ ''-''
   \<and> (useDataStream s \<longrightarrow> getWriteIndex s ts = samplingIndexPrefix s)
   \<and> (UseDataStream p \<longrightarrow>
        samplingIndexPrefix (NewSamplingStore p) = IndexPrefix p ''jaeger.sampling'')
   \<and> (\<not> useDataStream s \<longrightarrow> getWriteIndex s ts = indexName s ts)
   \<and> (\<forall>x \<in> set (snd (InsertThroughput FromThroughputs s c ts throughput)).
        \<exists>r. x = IndexAdd r \<and> req_index r = getWriteIndex s ts)
   \<and> (\<forall>x \<in> set (snd (InsertProbabilitiesAndQPS s c ts hostname probabilities qps)).
        \<exists>r. x = IndexAdd r \<and> req_index r = getWriteIndex s ts)"
  by (auto simp: dep_getWriteIndex_def WriteDependencies_def createIndex_def Let_def
      NewDependencyStore_def dependencyIndexBaseName_def IndexPrefixSeparator_def
      getWriteIndex_def NewSamplingStore_def InsertThroughput_def InsertProbabilitiesAndQPS_def
      writeProbabilitiesAndQPS_def
      split: sum.splits option.splits)

theorem write_target_by_mode_witness:
  "\<not> useReadWriteAliases (NewDependencyStore (example_depstore_Params False))
   \<and> WriteDependencies (NewDependencyStore (example_depstore_Params False)) (cluster 7 [] None)
        (UnixUTC jan1_2025) [1::nat]
       = (None, [IndexExists ''jaeger-dependencies-2025-01-01'',
                 CreateIndex ''jaeger-dependencies-2025-01-01'',
                 IndexAdd \<lparr>req_index = ''jaeger-dependencies-2025-01-01'',
                           req_type = ''dependencies'', req_id = None,
                           req_body = (UnixUTC jan1_2025, [1]), req_opType = []\<rparr>])
   \<and> useReadWriteAliases (NewDependencyStore (example_depstore_Params True))
   \<and> dep_getWriteIndex (NewDependencyStore (example_depstore_Params True)) (UnixUTC jan1_2025)
       = ''jaeger-dependencies-write''
   \<and> useDataStream (NewSamplingStore (example_Params (- (24 * Hour)) (72 * Hour) True))
   \<and> getWriteIndex (NewSamplingStore (example_Params (- (24 * Hour)) (72 * Hour) True))
        (UnixUTC jan1_2025) = ''jaeger.sampling''"
proof -
  let ?d0 = "NewDependencyStore (example_depstore_Params False)"
  let ?d1 = "NewDependencyStore (example_depstore_Params True)"
  let ?s1 = "NewSamplingStore (example_Params (- (24 * Hour)) (72 * Hour) True)"
  let ?t = "UnixUTC jan1_2025"
  have h0: "\<not> useReadWriteAliases ?d0"
    by (simp add: NewDependencyStore_def example_depstore_Params_def)
  have h1: "useReadWriteAliases ?d1"
    by (simp add: NewDependencyStore_def example_depstore_Params_def)
  have h2: "useDataStream ?s1"
    by (simp add: NewSamplingStore_def example_Params_def)
  have p0: "dependencyIndexPrefix ?d0 = ''jaeger-dependencies-''"
    by (simp add: NewDependencyStore_def example_depstore_Params_def dependencyIndexBaseName_def
        IndexPrefixSeparator_def)
  have l0: "DependencyStore.indexDateLayout ?d0 = ''2006-01-02''"
    by (simp add: NewDependencyStore_def example_depstore_Params_def)
  have p1: "dependencyIndexPrefix ?d1 = ''jaeger-dependencies-''"
    by (simp add: NewDependencyStore_def example_depstore_Params_def dependencyIndexBaseName_def
        IndexPrefixSeparator_def)
  have p2: "samplingIndexPrefix ?s1 = ''jaeger.sampling''"
    by (simp add: NewSamplingStore_def example_Params_def)
  note dated = write_target_by_mode [THEN conjunct1, rule_format, OF h0,
      where ts = ?t and c = "cluster 7 [] None" and dependencies = "[1::nat]"]
  have target: "dep_getWriteIndex ?d0 ?t = ''jaeger-dependencies-2025-01-01''"
    using dated [THEN conjunct1] by (simp add: p0 l0 date_name_jan1)
  have a: "WriteDependencies ?d0 (cluster 7 [] None) ?t [1::nat]
       = (None, [IndexExists ''jaeger-dependencies-2025-01-01'',
                 CreateIndex ''jaeger-dependencies-2025-01-01'',
                 IndexAdd \<lparr>req_index = ''jaeger-dependencies-2025-01-01'',
                           req_type = ''dependencies'', req_id = None,
                           req_body = (?t, [1]), req_opType = []\<rparr>])"
    using dated [THEN conjunct2]
    by (simp add: target cluster_def writeDependenciesToIndex_def dependencyType_def Let_def)
  have b: "dep_getWriteIndex ?d1 ?t = ''jaeger-dependencies-write''"
    using write_target_by_mode [THEN conjunct2, THEN conjunct1, rule_format, OF h1,
        THEN conjunct1, of ?t]
    by (simp add: p1)
  have c: "getWriteIndex ?s1 ?t = ''jaeger.sampling''"
    using write_target_by_mode [THEN conjunct2, THEN conjunct2, THEN conjunct2, THEN conjunct1,
        rule_format, OF h2, of ?t]
    by (simp add: p2)
  from h0 a h1 b h2 c show ?thesis by blast
qed

text \<open>
  The claim C8 as written fails: the sampling store in dated-index mode writes to a dated
  index that the cluster does not hold, and no existence check or creation comes before the
  write.
\<close>

theorem dated_sampling_write_unchecked_counterexample:
  "InsertThroughput (\<lambda>x. x) (NewSamplingStore (example_Params (- (24 * Hour)) (72 * Hour) False))
      (cluster 7 [] None) (UnixUTC jan1_2025) [5::nat]
     = (None, [IndexAdd \<lparr>req_index = ''jaeger-sampling-2025-01-01'',
                          req_type = ''throughput-sampling'', req_id = None,
                          req_body = (UnixUTC jan1_2025, 5), req_opType = []\<rparr>])"
  by (simp add: InsertThroughput_def getWriteIndex_def NewSamplingStore_def example_Params_def
      cluster_def date_name_jan1 samplingIndexBaseName_def IndexPrefixSeparator_def
      throughputType_def)

section \<open>Read plans in dated-index mode\<close>

lemma cursor_0: "cursor d t 0 = t"
  by (simp add: cursor_def)

lemma cursor_Suc: "cursor d t (Suc k) = Add (cursor d t k) d"
  by (simp add: cursor_def)

lemma cursor_shift: "cursor d (Add t d) k = cursor d t (Suc k)"
  by (induction k) (simp_all add: cursor_def)

lemma cursor_closed: "cursor d t k = t\<lparr>unix_nanos := unix_nanos t + int k * sint d\<rparr>"
  by (induction k) (simp_all add: cursor_0 cursor_Suc Add_def algebra_simps)

lemma cursor_zero_frequency: "cursor 0 t k = t"
  by (simp add: cursor_closed)

lemma getReadIndices_loop_run:
  assumes "indexName s (cursor (SamplingStore.indexRolloverFrequency s) t k) = first"
    and "\<forall>j. j0 \<le> j \<and> j < k \<longrightarrow> indexName s (cursor (SamplingStore.indexRolloverFrequency s) t j) \<noteq> first"
    and "j0 \<le> k"
  shows "getReadIndices_loop s first acc (cursor (SamplingStore.indexRolloverFrequency s) t j0)
           (indexName s (cursor (SamplingStore.indexRolloverFrequency s) t j0))
         = Some (acc @ map (\<lambda>j. indexName s (cursor (SamplingStore.indexRolloverFrequency s) t j)) [j0..<k])"
  using assms
proof (induction "k - j0" arbitrary: j0 acc)
  case 0
  then have "j0 = k" by simp
  with "0.prems"(1) show ?case
    by (subst getReadIndices_loop.simps) simp
next
  case (Suc n)
  then have lt: "j0 < k" by simp
  with Suc.prems(2) have ne: "indexName s (cursor (SamplingStore.indexRolloverFrequency s) t j0) \<noteq> first"
    by simp
  have ih: "getReadIndices_loop s first (acc @ [indexName s (cursor (SamplingStore.indexRolloverFrequency s) t j0)])
              (cursor (SamplingStore.indexRolloverFrequency s) t (Suc j0))
              (indexName s (cursor (SamplingStore.indexRolloverFrequency s) t (Suc j0)))
            = Some ((acc @ [indexName s (cursor (SamplingStore.indexRolloverFrequency s) t j0)])
                    @ map (\<lambda>j. indexName s (cursor (SamplingStore.indexRolloverFrequency s) t j)) [Suc j0..<k])"
    using Suc.hyps(2) Suc.prems lt by (intro Suc.hyps(1)) auto
  show ?case
    by (subst getReadIndices_loop.simps) (simp add: ne Let_def cursor_Suc [symmetric] ih upt_conv_Cons [OF lt])
qed

lemma getReadIndices_loop_returns:
  assumes "getReadIndices_loop s first acc t cur = Some y"
  shows "cur = indexName s t \<longrightarrow>
         (\<exists>k. indexName s (cursor (SamplingStore.indexRolloverFrequency s) t k) = first)"
proof (rule getReadIndices_loop.raw_induct [where P = "\<lambda>s first acc t cur y. cur = indexName s t \<longrightarrow>
         (\<exists>k. indexName s (cursor (SamplingStore.indexRolloverFrequency s) t k) = first)", OF _ assms])
  fix loop :: "SamplingStore \<Rightarrow> string \<Rightarrow> string list \<Rightarrow> Time \<Rightarrow> string \<Rightarrow> string list option"
  fix s first acc t cur y
  assume IH: "\<And>s first acc t cur y. loop s first acc t cur = Some y \<Longrightarrow>
      cur = indexName s t \<longrightarrow>
      (\<exists>k. indexName s (cursor (SamplingStore.indexRolloverFrequency s) t k) = first)"
  assume step: "(if cur \<noteq> first
      then let indices = acc @ [cur];
               endTime = Add t (SamplingStore.indexRolloverFrequency s);
               currentIndex = indexName s endTime
           in loop s first indices endTime currentIndex
      else Some acc) = Some y"
  show "cur = indexName s t \<longrightarrow>
      (\<exists>k. indexName s (cursor (SamplingStore.indexRolloverFrequency s) t k) = first)"
  proof (cases "cur = first")
    case True
    have "cur = indexName s t \<Longrightarrow> indexName s (cursor (SamplingStore.indexRolloverFrequency s) t 0) = first"
      using True by (simp add: cursor_0)
    then show ?thesis by blast
  next
    case False
    with step have "loop s first (acc @ [cur]) (Add t (SamplingStore.indexRolloverFrequency s))
        (indexName s (Add t (SamplingStore.indexRolloverFrequency s))) = Some y"
      by (simp add: Let_def)
    from IH [OF this] obtain k where
      "indexName s (cursor (SamplingStore.indexRolloverFrequency s)
          (Add t (SamplingStore.indexRolloverFrequency s)) k) = first"
      by blast
    then have "indexName s (cursor (SamplingStore.indexRolloverFrequency s) t (Suc k)) = first"
      by (simp add: cursor_shift)
    then show ?thesis by blast
  qed
qed

lemma least_step:
  assumes "P (k::nat)"
  shows "\<exists>m. P m \<and> (\<forall>j<m. \<not> P j)"
  using assms by (metis exists_least_iff)

lemma getReadIndices_returns_iff:
  assumes "\<not> useDataStream s"
  shows "(getReadIndices s startTime endTime \<noteq> None)
       = (\<exists>k. indexName s (cursor (SamplingStore.indexRolloverFrequency s) endTime k) = indexName s startTime)"
proof
  assume "getReadIndices s startTime endTime \<noteq> None"
  with assms obtain y where
    "getReadIndices_loop s (indexName s startTime) [] endTime (indexName s endTime) = Some y"
    by (auto simp: getReadIndices_def Let_def split: option.splits)
  from getReadIndices_loop_returns [OF this]
  show "\<exists>k. indexName s (cursor (SamplingStore.indexRolloverFrequency s) endTime k) = indexName s startTime"
    by simp
next
  assume "\<exists>k. indexName s (cursor (SamplingStore.indexRolloverFrequency s) endTime k) = indexName s startTime"
  then obtain m where m: "indexName s (cursor (SamplingStore.indexRolloverFrequency s) endTime m) = indexName s startTime"
    and least: "\<forall>j<m. indexName s (cursor (SamplingStore.indexRolloverFrequency s) endTime j) \<noteq> indexName s startTime"
    using least_step [of "\<lambda>k. indexName s (cursor (SamplingStore.indexRolloverFrequency s) endTime k) = indexName s startTime"]
    by blast
  from getReadIndices_loop_run [OF m, of 0 "[]"] least
  have "getReadIndices_loop s (indexName s startTime) [] endTime (indexName s endTime)
         = Some (map (\<lambda>j. indexName s (cursor (SamplingStore.indexRolloverFrequency s) endTime j)) [0..<m])"
    by (simp add: cursor_0)
  with assms show "getReadIndices s startTime endTime \<noteq> None"
    by (simp add: getReadIndices_def Let_def)
qed






text \<open>
  C3, as the code has it. In dated-index mode the read plan is returned if and only if
  some cursor \<open>end + k f\<close> has the name covering \<open>start\<close>; with a zero frequency that is if and
  only if \<open>start\<close> and \<open>end\<close> have the same name. Nothing checks the frequency: the
  constructor stores it as it is given.
\<close>

theorem dated_read_plan_returns_iff_boundary_reached:
  assumes "\<not> useDataStream s"
  shows "((getReadIndices s startTime endTime \<noteq> None)
            = (\<exists>k. indexName s (cursor (SamplingStore.indexRolloverFrequency s) endTime k)
                     = indexName s startTime))
       \<and> (SamplingStore.indexRolloverFrequency s = 0 \<longrightarrow>
            (getReadIndices s startTime endTime \<noteq> None) = (indexName s endTime = indexName s startTime))
       \<and> SamplingStore.indexRolloverFrequency (NewSamplingStore p) = IndexRolloverFrequency p"
proof -
  note iff = getReadIndices_returns_iff [OF assms, of startTime endTime]
  have zero: "SamplingStore.indexRolloverFrequency s = 0 \<Longrightarrow>
      (getReadIndices s startTime endTime \<noteq> None) = (indexName s endTime = indexName s startTime)"
    using iff by (simp add: cursor_zero_frequency)
  have new: "SamplingStore.indexRolloverFrequency (NewSamplingStore p) = IndexRolloverFrequency p"
    by (simp add: NewSamplingStore_def Let_def)
  from iff zero new show ?thesis by blast
qed

theorem dated_read_plan_returns_iff_boundary_reached_witness:
  "\<not> useDataStream (NewSamplingStore (example_Params (- (24 * Hour)) (72 * Hour) False))
   \<and> indexName (NewSamplingStore (example_Params (- (24 * Hour)) (72 * Hour) False))
        (cursor (- (24 * Hour)) (UnixUTC (jan1_2025 + 216000)) 2)
       = indexName (NewSamplingStore (example_Params (- (24 * Hour)) (72 * Hour) False))
           (UnixUTC jan1_2025)
   \<and> getReadIndices (NewSamplingStore (example_Params (- (24 * Hour)) (72 * Hour) False))
        (UnixUTC jan1_2025) (UnixUTC (jan1_2025 + 216000)) \<noteq> None"
proof -
  let ?s = "NewSamplingStore (example_Params (- (24 * Hour)) (72 * Hour) False)"
  let ?a = "UnixUTC jan1_2025"
  let ?b = "UnixUTC (jan1_2025 + 216000)"
  have h: "\<not> useDataStream ?s"
    by (simp add: NewSamplingStore_def example_Params_def)
  have f: "SamplingStore.indexRolloverFrequency ?s = - (24 * Hour)"
    by (simp add: NewSamplingStore_def example_Params_def)
  have reach: "indexName ?s (cursor (- (24 * Hour)) ?b 2) = indexName ?s ?a"
    by code_simp
  then have "\<exists>k. indexName ?s (cursor (SamplingStore.indexRolloverFrequency ?s) ?b k) = indexName ?s ?a"
    unfolding f by (rule exI)
  with dated_read_plan_returns_iff_boundary_reached [OF h, THEN conjunct1, of ?a ?b]
  have "getReadIndices ?s ?a ?b \<noteq> None" by (rule iffD2)
  with h reach show ?thesis by blast
qed

text \<open>
  The claim C3 as written fails: a store built with a zero frequency is accepted, and its
  read plan from 1 to 2 January 2025 is never returned.
\<close>

theorem zero_frequency_read_plan_never_returns_counterexample:
  "getReadIndices (NewSamplingStore (example_Params 0 (72 * Hour) False))
     (UnixUTC jan1_2025) (UnixUTC (jan1_2025 + 86400)) = None"
proof -
  let ?s = "NewSamplingStore (example_Params 0 (72 * Hour) False)"
  let ?a = "UnixUTC jan1_2025"
  let ?b = "UnixUTC (jan1_2025 + 86400)"
  have h: "\<not> useDataStream ?s"
    by (simp add: NewSamplingStore_def example_Params_def)
  have f: "SamplingStore.indexRolloverFrequency ?s = 0"
    by (simp add: NewSamplingStore_def example_Params_def)
  have ne: "indexName ?s ?b \<noteq> indexName ?s ?a"
    by code_simp
  have "\<not> (\<exists>k. indexName ?s (cursor (SamplingStore.indexRolloverFrequency ?s) ?b k) = indexName ?s ?a)"
    using ne by (simp add: f cursor_zero_frequency)
  with getReadIndices_returns_iff [OF h, of ?a ?b] show ?thesis by simp
qed

section \<open>The latest dated index\<close>








section \<open>Dated names\<close>



















end
